theory Spec2Isabelle
  imports Main "HOL-Library.AList"
begin

section \<open>Python objects of \<open>hdlAst/_typeDefs.py\<close>\<close>

text \<open>
  Every class of the module declares \<open>__slots__\<close>, so an instance is a fixed tuple of
  attributes: a record with one field per slot, in the order of \<open>__slots__\<close>. Fields
  shared by several classes (\<open>name\<close>, \<open>subtype\<close>, \<open>range\<close>, \<open>indexes\<close>) are written
  qualified, as in \<open>HdlRange.subtype\<close>. The slots \<open>private\<close>, \<open>values\<close> and \<open>fields\<close>
  carry a prime, because Isabelle reserves these words.

  A call either raises or returns a value: a result is \<open>error + 'a\<close>, where \<open>Inl\<close> is
  the exception raised and \<open>Inr\<close> the value returned.
\<close>

datatype error = AttributeError | TypeError

text \<open>
  A slot that no assignment has reached yet holds nothing, and reading it raises
  \<open>AttributeError\<close>. The record of a class keeps a plain value for each slot that the
  class's own \<open>__init__\<close> assigns, and a \<open>slot\<close> for each slot that it does not assign.
\<close>

datatype 'a slot = Unset | Val 'a

fun getattr :: "'a slot \<Rightarrow> error + 'a" where
  "getattr Unset = Inl AttributeError"
| "getattr (Val v) = Inr v"

text \<open>
  The base classes \<open>iHdlObj\<close> and \<open>iHdlObjWithName\<close> live in \<open>hdlAst/_bases.py\<close>, outside
  this module. Each constructor starts with \<open>super().__init__()\<close>; of the slots
  declared in this module the base constructor can only concern \<open>name\<close>, and what it
  leaves in that slot is the parameter \<open>base_name\<close> of the constructors below.
\<close>

subsection \<open>\<open>HdlRange\<close>\<close>

record 'v HdlRange =
  subtype :: "'v option"
  range :: "'v option"
  attribute :: "'v option"

text \<open>
  \<open>def __init__(self, subtype=None, rng=None, attribute=None)\<close>: an omitted argument
  and an explicit \<open>None\<close> are the same value \<open>None\<close>.
\<close>

definition HdlRange_init :: "'v option \<Rightarrow> 'v option \<Rightarrow> 'v option \<Rightarrow> error + 'v HdlRange" where
  "HdlRange_init subtype_arg rng attribute_arg =
     Inr \<lparr>HdlRange.subtype = subtype_arg, HdlRange.range = rng, attribute = attribute_arg\<rparr>"

text \<open>
  The alternatives of a range that are populated, that is, not \<open>None\<close>: the quantity
  the data model's invariant on \<open>Range\<close> speaks about.
\<close>

definition HdlRange_populated :: "'v HdlRange \<Rightarrow> nat" where
  "HdlRange_populated r =
     length (filter (\<lambda>x. x \<noteq> None) [HdlRange.subtype r, HdlRange.range r, attribute r])"

subsection \<open>Container objects and \<open>HdlConstraint\<close>\<close>

text \<open>
  \<open>HdlConstraint.__init__\<close> evaluates the displays \<open>[]\<close> and \<open>{}\<close>, each of which creates
  a new mutable object; the node holds references to them. The store is the list of
  the container objects created so far, an address is an index into it, and creating
  an object appends it to the store, so the address is one that no earlier object has.
  A \<open>dict\<close> keeps its keys in insertion order: it is an association list, and
  assigning to a key replaces the value in place or adds the pair at the end.
\<close>

type_synonym addr = nat

datatype ('k, 'v) container = PyList "'v list" | PyDict "('k \<times> 'v) list"

type_synonym ('k, 'v) store = "('k, 'v) container list"

definition alloc :: "('k, 'v) container \<Rightarrow> ('k, 'v) store \<Rightarrow> addr \<times> ('k, 'v) store" where
  "alloc c h = (length h, h @ [c])"

definition deref :: "('k, 'v) store \<Rightarrow> addr \<Rightarrow> ('k, 'v) container option" where
  "deref h a = (if a < length h then Some (h ! a) else None)"

text \<open>
  \<open>xs.append(x)\<close> and \<open>d[k] = v\<close> on the object at an address: \<open>AttributeError\<close> when
  the object has no \<open>append\<close> (a \<open>dict\<close>), \<open>TypeError\<close> when a list is indexed by a key.
  An address outside the store does not occur in Python; the model answers with an
  error there too.
\<close>

definition list_append :: "addr \<Rightarrow> 'v \<Rightarrow> ('k, 'v) store \<Rightarrow> error + ('k, 'v) store" where
  "list_append a x h =
     (case deref h a of
        Some (PyList xs) \<Rightarrow> Inr (h[a := PyList (xs @ [x])])
      | Some (PyDict kvs) \<Rightarrow> Inl AttributeError
      | None \<Rightarrow> Inl AttributeError)"

definition dict_setitem :: "addr \<Rightarrow> 'k \<Rightarrow> 'v \<Rightarrow> ('k, 'v) store \<Rightarrow> error + ('k, 'v) store" where
  "dict_setitem a k v h =
     (case deref h a of
        Some (PyDict kvs) \<Rightarrow> Inr (h[a := PyDict (AList.update k v kvs)])
      | Some (PyList xs) \<Rightarrow> Inl TypeError
      | None \<Rightarrow> Inl TypeError)"

record 'v HdlConstraint =
  range :: "'v option"
  indexes :: addr
  element :: "'v option"
  field_cons :: addr

definition HdlConstraint_init ::
  "('k, 'v) store \<Rightarrow> error + ('v HdlConstraint \<times> ('k, 'v) store)" where
  "HdlConstraint_init h =
     (let (l, h1) = alloc (PyList []) h;
          (d, h2) = alloc (PyDict []) h1
      in Inr (\<lparr>HdlConstraint.range = None, HdlConstraint.indexes = l,
                element = None, field_cons = d\<rparr>, h2))"

subsection \<open>\<open>HdlTypeDec\<close>\<close>

text \<open>
  The two dictionaries \<open>ids\<close> and \<open>fields\<close> are association lists in insertion order;
  \<open>indexes\<close> is \<open>None\<close> or a list.
\<close>

record ('k, 'v) HdlTypeDec =
  subtype :: "'v option"
  ids :: "('k \<times> 'v) list"
  base_type :: "'v option"
  isUnion :: bool
  indexes :: "'v list option"
  elem_type :: "'v option"
  fields' :: "('k \<times> 'v) list"

definition HdlTypeDec_init :: "error + ('k, 'v) HdlTypeDec" where
  "HdlTypeDec_init =
     Inr \<lparr>HdlTypeDec.subtype = None, ids = [], base_type = None, isUnion = False,
          HdlTypeDec.indexes = None, elem_type = None, fields' = []\<rparr>"

text \<open>
  The three shapes of a type declaration, in the words of the data model: an alias has
  its subtype set, an array has its element type and its indexes set, a record or
  union has a non-empty field mapping.
\<close>

definition alias_shape :: "('k, 'v) HdlTypeDec \<Rightarrow> bool" where
  "alias_shape t = (HdlTypeDec.subtype t \<noteq> None)"

definition array_shape :: "('k, 'v) HdlTypeDec \<Rightarrow> bool" where
  "array_shape t = (elem_type t \<noteq> None \<and> HdlTypeDec.indexes t \<noteq> None)"

definition record_shape :: "('k, 'v) HdlTypeDec \<Rightarrow> bool" where
  "record_shape t = (fields' t \<noteq> [])"

definition HdlTypeDec_shapes :: "('k, 'v) HdlTypeDec \<Rightarrow> nat" where
  "HdlTypeDec_shapes t = length (filter id [alias_shape t, array_shape t, record_shape t])"

subsection \<open>\<open>HdlTypeBitsDef\<close>\<close>

record HdlTypeBitsDef =
  name :: "string option slot"
  msb :: int
  lsb :: int
  signed :: bool
  is_bigendian :: bool
  states :: int

definition STD_LOGIC_STATES :: int where
  "STD_LOGIC_STATES = 9"

definition WIRE_STATES :: int where
  "WIRE_STATES = 4"

text \<open>
  \<open>def __init__(self, msb, lsb=0, signed=False)\<close>: \<open>msb\<close> is required; for the two
  optional parameters \<open>None\<close> stands for an argument that the call leaves out, which
  takes the default of the signature.
\<close>

definition HdlTypeBitsDef_init ::
  "string option slot \<Rightarrow> int \<Rightarrow> int option \<Rightarrow> bool option \<Rightarrow> error + HdlTypeBitsDef" where
  "HdlTypeBitsDef_init base_name msb_arg lsb_arg signed_arg =
     Inr \<lparr>HdlTypeBitsDef.name = base_name,
          msb = msb_arg,
          lsb = (case lsb_arg of None \<Rightarrow> 0 | Some l \<Rightarrow> l),
          signed = (case signed_arg of None \<Rightarrow> False | Some s \<Rightarrow> s),
          is_bigendian = False,
          states = 2\<rparr>"

definition width :: "HdlTypeBitsDef \<Rightarrow> int" where
  "width self =
     (if msb self \<ge> lsb self then msb self - lsb self else lsb self - msb self)"

text \<open>
  \<open>__hash__\<close> applies Python's built-in \<open>hash\<close> to the tuple
  \<open>(msb, lsb, signed, is_bigendian)\<close>; the built-in is the parameter \<open>hash\<close>.
\<close>

definition HdlTypeBitsDef_hash :: "(int \<times> int \<times> bool \<times> bool \<Rightarrow> 'h) \<Rightarrow> HdlTypeBitsDef \<Rightarrow> 'h" where
  "HdlTypeBitsDef_hash hash self = hash (msb self, lsb self, signed self, is_bigendian self)"

text \<open>
  The right operand of \<open>__eq__\<close> is any Python value: an instance of \<open>HdlTypeBitsDef\<close>,
  or a value of some other type \<open>'o\<close>.
\<close>

datatype 'o py_value = Bits HdlTypeBitsDef | NotBits 'o

fun isinstance_HdlTypeBitsDef :: "'o py_value \<Rightarrow> bool" where
  "isinstance_HdlTypeBitsDef (Bits b) = True"
| "isinstance_HdlTypeBitsDef (NotBits v) = False"

text \<open>
  \<open>return isinstance(other, HdlTypeBitsDef) and (...)\<close>: \<open>and\<close> evaluates its right
  operand, which reads the attributes of \<open>other\<close>, only when \<open>other\<close> is an instance;
  otherwise the result is the \<open>False\<close> of \<open>isinstance\<close>.
\<close>

fun HdlTypeBitsDef_eq ::"HdlTypeBitsDef \<Rightarrow> 'o py_value \<Rightarrow> bool" where
  "HdlTypeBitsDef_eq self (NotBits v) = False"
| "HdlTypeBitsDef_eq self (Bits other) =
     (msb self = msb other
      \<and> lsb self = lsb other
      \<and> signed self = signed other
      \<and> is_bigendian self = is_bigendian other)"

subsection \<open>\<open>HdlClassDef\<close>\<close>

text \<open>
  \<open>__slots__\<close> lists ten attributes. \<open>__init__\<close> assigns eight of them; \<open>name\<close> is left
  to the base class, and no statement assigns \<open>is_interface\<close>.
\<close>

record ('p, 'm) HdlClassDef =
  name :: "string option slot"
  parents :: "'p list"
  is_virtual :: bool
  is_static :: bool
  is_struct :: bool
  is_union :: bool
  is_interface :: "bool slot"
  private' :: "'m list"
  public :: "'m list"
  protected :: "'m list"

definition HdlClassDef_init :: "string option slot \<Rightarrow> error + ('p, 'm) HdlClassDef" where
  "HdlClassDef_init base_name =
     Inr \<lparr>HdlClassDef.name = base_name,
          parents = [],
          is_virtual = False,
          is_static = False,
          is_struct = False,
          is_union = False,
          is_interface = Unset,
          private' = [],
          public = [],
          protected = []\<rparr>"

subsection \<open>\<open>HdlEnumDef\<close>\<close>

text \<open>
  \<open>values\<close> is annotated \<open>List[Union[str, Tuple[str, int]]]\<close>: a member is a string, or
  a pair of a string and an integer.
\<close>

datatype member = Bare string | Valued string int

record HdlEnumDef =
  name :: "string option slot"
  values' :: "member list"

definition HdlEnumDef_init :: "string option slot \<Rightarrow> error + HdlEnumDef" where
  "HdlEnumDef_init base_name = Inr \<lparr>HdlEnumDef.name = base_name, values' = []\<rparr>"

text \<open>\<open>e.values.append(m)\<close>, the way a producer adds a member to a declaration.\<close>

definition append_member :: "HdlEnumDef \<Rightarrow> member \<Rightarrow> HdlEnumDef" where
  "append_member e m = e\<lparr>values' := values' e @ [m]\<rparr>"

section \<open>Bit-vector width\<close>

text \<open>
  C1. For all integers \<open>a\<close> and \<open>b\<close>, the width of a bit vector with bounds \<open>a\<close> and \<open>b\<close>
  is the same whichever of the two is the most significant bound, and is the absolute
  difference \<open>|a - b|\<close>, not the inclusive bit count: bounds 7 and 0 give 7.
\<close>

theorem width_symmetric_abs_diff:
  "width \<lparr>HdlTypeBitsDef.name = n, msb = a, lsb = b, signed = s, is_bigendian = e, states = k\<rparr>
     = width \<lparr>HdlTypeBitsDef.name = n, msb = b, lsb = a, signed = s, is_bigendian = e, states = k\<rparr>
   \<and> width \<lparr>HdlTypeBitsDef.name = n, msb = b, lsb = a, signed = s, is_bigendian = e, states = k\<rparr>
     = \<bar>a - b\<bar>
   \<and> width \<lparr>HdlTypeBitsDef.name = n, msb = 7, lsb = 0, signed = s, is_bigendian = e, states = k\<rparr> = 7"
  by (simp add: width_def)

section \<open>Bit-vector equality and hash\<close>

text \<open>
  C2. Two bit-vector type nodes with the same msb, lsb, signed flag and big-endian
  flag compare equal and have equal hashes, whatever their state counts \<open>s1\<close>, \<open>s2\<close> and
  their names \<open>n1\<close>, \<open>n2\<close> are: equality and hash are functions of the four attributes
  \<open>(msb, lsb, signed, is_bigendian)\<close> only.
\<close>

theorem HdlTypeBitsDef_eq_hash_ignore_states_and_name:
  "HdlTypeBitsDef_eq
      \<lparr>HdlTypeBitsDef.name = n1, msb = m, lsb = l, signed = s, is_bigendian = e, states = s1\<rparr>
      (Bits \<lparr>HdlTypeBitsDef.name = n2, msb = m, lsb = l, signed = s, is_bigendian = e, states = s2\<rparr>)
   \<and> HdlTypeBitsDef_hash hash
        \<lparr>HdlTypeBitsDef.name = n1, msb = m, lsb = l, signed = s, is_bigendian = e, states = s1\<rparr>
     = HdlTypeBitsDef_hash hash
        \<lparr>HdlTypeBitsDef.name = n2, msb = m, lsb = l, signed = s, is_bigendian = e, states = s2\<rparr>
   \<and> HdlTypeBitsDef_eq x (Bits y)
     = ((msb x, lsb x, signed x, is_bigendian x) = (msb y, lsb y, signed y, is_bigendian y))
   \<and> HdlTypeBitsDef_hash hash x = hash (msb x, lsb x, signed x, is_bigendian x)"
  by (simp add: HdlTypeBitsDef_hash_def)

text \<open>
  C10. Equality of bit-vector type nodes is reflexive, symmetric and transitive; a
  node is never equal to a value that is not a bit-vector type node; and equal nodes
  have equal hashes, for any hash function on tuples.
\<close>

theorem HdlTypeBitsDef_eq_equivalence:
  "HdlTypeBitsDef_eq x (Bits x)
   \<and> (HdlTypeBitsDef_eq x (Bits y) \<longrightarrow> HdlTypeBitsDef_eq y (Bits x))
   \<and> (HdlTypeBitsDef_eq x (Bits y) \<and> HdlTypeBitsDef_eq y (Bits z) \<longrightarrow> HdlTypeBitsDef_eq x (Bits z))
   \<and> \<not> HdlTypeBitsDef_eq x (NotBits v)
   \<and> \<not> isinstance_HdlTypeBitsDef (NotBits v)
   \<and> (HdlTypeBitsDef_eq x (Bits y) \<longrightarrow> HdlTypeBitsDef_hash hash x = HdlTypeBitsDef_hash hash y)"
  by (simp add: HdlTypeBitsDef_hash_def)

text \<open>
  C10, at three concrete nodes that differ in name and state count only: the
  premises of symmetry, transitivity and hash consistency hold there, and so do
  their conclusions.
\<close>

theorem HdlTypeBitsDef_eq_equivalence_witness:
  "HdlTypeBitsDef_eq
      \<lparr>HdlTypeBitsDef.name = Val None, msb = 7, lsb = 0, signed = False, is_bigendian = False, states = 2\<rparr>
      (Bits \<lparr>HdlTypeBitsDef.name = Val (Some ''v''), msb = 7, lsb = 0, signed = False, is_bigendian = False, states = 9\<rparr> :: unit py_value)
   \<and> HdlTypeBitsDef_eq
      \<lparr>HdlTypeBitsDef.name = Val (Some ''v''), msb = 7, lsb = 0, signed = False, is_bigendian = False, states = 9\<rparr>
      (Bits \<lparr>HdlTypeBitsDef.name = Unset, msb = 7, lsb = 0, signed = False, is_bigendian = False, states = 4\<rparr> :: unit py_value)
   \<and> HdlTypeBitsDef_eq
      \<lparr>HdlTypeBitsDef.name = Val (Some ''v''), msb = 7, lsb = 0, signed = False, is_bigendian = False, states = 9\<rparr>
      (Bits \<lparr>HdlTypeBitsDef.name = Val None, msb = 7, lsb = 0, signed = False, is_bigendian = False, states = 2\<rparr> :: unit py_value)
   \<and> HdlTypeBitsDef_eq
      \<lparr>HdlTypeBitsDef.name = Val None, msb = 7, lsb = 0, signed = False, is_bigendian = False, states = 2\<rparr>
      (Bits \<lparr>HdlTypeBitsDef.name = Unset, msb = 7, lsb = 0, signed = False, is_bigendian = False, states = 4\<rparr> :: unit py_value)
   \<and> HdlTypeBitsDef_hash (\<lambda>t. t)
        \<lparr>HdlTypeBitsDef.name = Val None, msb = 7, lsb = 0, signed = False, is_bigendian = False, states = 2\<rparr>
     = HdlTypeBitsDef_hash (\<lambda>t. t)
        \<lparr>HdlTypeBitsDef.name = Val (Some ''v''), msb = 7, lsb = 0, signed = False, is_bigendian = False, states = 9\<rparr>"
proof -
  let ?x = "\<lparr>HdlTypeBitsDef.name = Val None, msb = 7, lsb = 0, signed = False, is_bigendian = False, states = 2\<rparr>"
  let ?y = "\<lparr>HdlTypeBitsDef.name = Val (Some ''v''), msb = 7, lsb = 0, signed = False, is_bigendian = False, states = 9\<rparr>"
  let ?z = "\<lparr>HdlTypeBitsDef.name = Unset, msb = 7, lsb = 0, signed = False, is_bigendian = False, states = 4\<rparr>"
  note eqv = HdlTypeBitsDef_eq_equivalence [of ?x ?y ?z "()" "\<lambda>t. t"]
  have xy: "HdlTypeBitsDef_eq ?x (Bits ?y :: unit py_value)" by simp
  have yz: "HdlTypeBitsDef_eq ?y (Bits ?z :: unit py_value)" by simp
  have yx: "HdlTypeBitsDef_eq ?y (Bits ?x :: unit py_value)"
    by (rule eqv [THEN conjunct2, THEN conjunct1, THEN mp, OF xy])
  have xz: "HdlTypeBitsDef_eq ?x (Bits ?z :: unit py_value)"
    by (rule eqv [THEN conjunct2, THEN conjunct2, THEN conjunct1, THEN mp, OF conjI [OF xy yz]])
  have h: "HdlTypeBitsDef_hash (\<lambda>t. t) ?x = HdlTypeBitsDef_hash (\<lambda>t. t) ?y"
    by (rule eqv [THEN conjunct2, THEN conjunct2, THEN conjunct2, THEN conjunct2, THEN conjunct2,
          THEN mp, OF xy])
  show ?thesis
    by (intro conjI xy yz yx xz h)
qed

section \<open>Constructors\<close>

text \<open>
  C3, as the claim states it, fails: \<open>HdlRange()\<close> is a node with no alternative
  populated, and \<open>HdlRange(x, x, x)\<close> is a node with all three populated.
\<close>

theorem HdlRange_populated_counterexample:
  "map_sum id HdlRange_populated (HdlRange_init (None :: unit option) None None) = Inr 0
   \<and> map_sum id HdlRange_populated (HdlRange_init (Some ()) (Some ()) (Some ())) = Inr 3"
  by (simp add: HdlRange_init_def HdlRange_populated_def)

text \<open>
  C3, amended. The constructor of a range stores its three arguments as they are
  given (\<open>None\<close> for one left out) and checks nothing: the node has exactly one
  populated alternative if and only if the caller passes exactly one of the three.
\<close>

theorem HdlRange_init_stores_arguments:
  "(\<exists>n. HdlRange_init s r a = Inr n
        \<and> HdlRange.subtype n = s \<and> HdlRange.range n = r \<and> attribute n = a
        \<and> (HdlRange_populated n = 1)
          = ((s \<noteq> None \<and> r = None \<and> a = None)
             \<or> (s = None \<and> r \<noteq> None \<and> a = None)
             \<or> (s = None \<and> r = None \<and> a \<noteq> None)))"
  by (auto simp add: HdlRange_init_def HdlRange_populated_def)

text \<open>
  C4, as the claim states it, fails: \<open>HdlTypeDec()\<close> is a node with no shape
  populated.
\<close>

theorem HdlTypeDec_shapes_counterexample:
  "map_sum id HdlTypeDec_shapes (HdlTypeDec_init :: error + (string, unit) HdlTypeDec) = Inr 0"
  by (simp add: HdlTypeDec_init_def HdlTypeDec_shapes_def alias_shape_def array_shape_def record_shape_def)

text \<open>
  C4, amended. A type declaration is constructed with no shape populated: no subtype,
  no base type, no indexes, no element type, empty \<open>ids\<close> and \<open>fields\<close>, union flag
  false. It has exactly one shape once the fields of one kind have been assigned to
  the fresh node: the subtype (alias), the indexes and the element type (array), or a
  non-empty field mapping (record or union).
\<close>

theorem HdlTypeDec_init_no_shape:
  "(\<exists>t. HdlTypeDec_init = Inr t
        \<and> HdlTypeDec.subtype t = None \<and> ids t = [] \<and> base_type t = None \<and> isUnion t = False
        \<and> HdlTypeDec.indexes t = None \<and> elem_type t = None \<and> fields' t = []
        \<and> HdlTypeDec_shapes t = 0
        \<and> HdlTypeDec_shapes (t\<lparr>HdlTypeDec.subtype := Some v\<rparr>) = 1
        \<and> HdlTypeDec_shapes (t\<lparr>HdlTypeDec.indexes := Some ix, elem_type := Some v\<rparr>) = 1
        \<and> HdlTypeDec_shapes (t\<lparr>fields' := (k, v) # kvs\<rparr>) = 1)"
  by (simp add: HdlTypeDec_init_def HdlTypeDec_shapes_def alias_shape_def array_shape_def record_shape_def)

text \<open>
  C5. The constructors of \<open>HdlRange\<close>, \<open>HdlConstraint\<close> and \<open>HdlTypeDec\<close> return a node
  at every argument and never raise, also where the shape is inconsistent: a range
  with all three alternatives set is returned, and a type declaration that has both
  a subtype and a non-empty field mapping assigned is a node with two shapes.
\<close>

theorem constructors_never_raise:
  "(\<exists>n. HdlRange_init s r a = Inr n)
   \<and> (\<exists>n h'. HdlConstraint_init h = Inr (n, h'))
   \<and> (\<exists>n. (HdlTypeDec_init :: error + ('k, 'v) HdlTypeDec) = Inr n)
   \<and> (\<exists>n. HdlRange_init (Some x) (Some y) (Some z) = Inr n \<and> HdlRange_populated n = 3)
   \<and> (\<exists>t. HdlTypeDec_init = Inr t
          \<and> alias_shape (t\<lparr>HdlTypeDec.subtype := Some v, fields' := [(k, w)]\<rparr>)
          \<and> record_shape (t\<lparr>HdlTypeDec.subtype := Some v, fields' := [(k, w)]\<rparr>)
          \<and> HdlTypeDec_shapes (t\<lparr>HdlTypeDec.subtype := Some v, fields' := [(k, w)]\<rparr>) = 2)"
  by (simp add: HdlRange_init_def HdlRange_populated_def HdlConstraint_init_def alloc_def
      HdlTypeDec_init_def HdlTypeDec_shapes_def alias_shape_def array_shape_def record_shape_def)

text \<open>
  C6, as the claim states it, fails for a negative msb: \<open>HdlTypeBitsDef(-1)\<close> has
  width 1, while msb - 0 is -1.
\<close>

theorem HdlTypeBitsDef_width_counterexample:
  "map_sum id width (HdlTypeBitsDef_init Unset (- 1) None None) = Inr 1
   \<and> map_sum id msb (HdlTypeBitsDef_init Unset (- 1) None None) = Inr (- 1)
   \<and> (1 :: int) \<noteq> - 1 - 0"
  by (simp add: HdlTypeBitsDef_init_def width_def)

text \<open>
  C6, amended. A bit-vector type node constructed from msb alone has lsb 0, signed
  false, big-endian false and state count 2, and its width is \<open>|msb - 0|\<close>. Scenario
  A: msb 7 (with lsb 0 and signed false given or left out) yields msb 7, lsb 0,
  signed false, big-endian false, 2 states and width 7.
\<close>

theorem HdlTypeBitsDef_init_defaults:
  "(\<exists>t. HdlTypeBitsDef_init n m None None = Inr t
        \<and> msb t = m \<and> lsb t = 0 \<and> signed t = False \<and> is_bigendian t = False \<and> states t = 2
        \<and> width t = \<bar>m - 0\<bar>)
   \<and> (\<exists>t. HdlTypeBitsDef_init n 7 (Some 0) (Some False) = Inr t
        \<and> HdlTypeBitsDef_init n 7 None None = Inr t
        \<and> msb t = 7 \<and> lsb t = 0 \<and> signed t = False \<and> is_bigendian t = False \<and> states t = 2
        \<and> width t = 7)"
  by (simp add: HdlTypeBitsDef_init_def width_def)

text \<open>
  C7. On a freshly constructed class-like node the flags \<open>is_virtual\<close>, \<open>is_static\<close>,
  \<open>is_struct\<close> and \<open>is_union\<close> are false and the parent list and the three visibility
  partitions are empty, but reading the fifth flag \<open>is_interface\<close> raises
  \<open>AttributeError\<close>: the slot is declared and never assigned.
\<close>

theorem HdlClassDef_init_is_interface_unset:
  "(\<exists>c. (HdlClassDef_init n :: error + ('p, 'm) HdlClassDef) = Inr c
        \<and> getattr (is_interface c) = Inl AttributeError
        \<and> is_virtual c = False \<and> is_static c = False \<and> is_struct c = False \<and> is_union c = False
        \<and> parents c = [] \<and> private' c = [] \<and> public c = [] \<and> protected c = [])"
  by (simp add: HdlClassDef_init_def)

section \<open>Containers of a constraint node\<close>

lemma HdlConstraint_init_result:
  "HdlConstraint_init h =
     Inr (\<lparr>HdlConstraint.range = None, HdlConstraint.indexes = length h,
            element = None, field_cons = Suc (length h)\<rparr>,
          h @ [PyList [], PyDict []])"
  by (simp add: HdlConstraint_init_def alloc_def)

lemma deref_append_new:
  "deref (h @ [PyList [], PyDict []]) (length h) = Some (PyList [])"
  "deref (h @ [PyList [], PyDict []]) (Suc (length h)) = Some (PyDict [])"
  by (simp_all add: deref_def nth_append)

lemma deref_list_update_other:
  "b \<noteq> a \<Longrightarrow> deref (h[a := c]) b = deref h b"
  by (simp add: deref_def)

lemma list_append_other:
  "list_append a x h = Inr h' \<Longrightarrow> b \<noteq> a \<Longrightarrow> deref h' b = deref h b"
  by (auto simp add: list_append_def deref_list_update_other
      split: option.splits container.splits)

lemma dict_setitem_other:
  "dict_setitem a k v h = Inr h' \<Longrightarrow> b \<noteq> a \<Longrightarrow> deref h' b = deref h b"
  by (auto simp add: dict_setitem_def deref_list_update_other
      split: option.splits container.splits)

lemma list_append_others:
  "b \<noteq> a \<Longrightarrow> c \<noteq> a \<Longrightarrow>
   \<forall>h h' x. list_append a x h = Inr h' \<longrightarrow> deref h' b = deref h b \<and> deref h' c = deref h c"
  by (simp add: list_append_other)

lemma dict_setitem_others:
  "b \<noteq> a \<Longrightarrow> c \<noteq> a \<Longrightarrow>
   \<forall>h h' k v. dict_setitem a k v h = Inr h' \<longrightarrow> deref h' b = deref h b \<and> deref h' c = deref h c"
  by (simp add: dict_setitem_other)

text \<open>
  C9. A freshly constructed constraint node has no range, an empty index list, no
  element constraint and an empty field map. Its list and its map are objects of their
  own: for a node \<open>c1\<close> and a node \<open>c2\<close> constructed later (the store has only grown in
  between), the four containers have four different addresses, and appending to the
  index list or assigning in the field map of one node, in any store, leaves both
  containers of the other node as they were.
\<close>

theorem HdlConstraint_init_fresh_containers:
  assumes c1: "HdlConstraint_init h0 = Inr (c1, h1)"
      and grow: "length h1 \<le> length hm"
      and c2: "HdlConstraint_init hm = Inr (c2, h2)"
  shows "HdlConstraint.range c1 = None \<and> element c1 = None
     \<and> deref h1 (HdlConstraint.indexes c1) = Some (PyList [])
     \<and> deref h1 (field_cons c1) = Some (PyDict [])
     \<and> HdlConstraint.range c2 = None \<and> element c2 = None
     \<and> deref h2 (HdlConstraint.indexes c2) = Some (PyList [])
     \<and> deref h2 (field_cons c2) = Some (PyDict [])
     \<and> distinct [HdlConstraint.indexes c1, field_cons c1, HdlConstraint.indexes c2, field_cons c2]
     \<and> (\<forall>h h' x. list_append (HdlConstraint.indexes c1) x h = Inr h' \<longrightarrow>
            deref h' (HdlConstraint.indexes c2) = deref h (HdlConstraint.indexes c2)
          \<and> deref h' (field_cons c2) = deref h (field_cons c2))
     \<and> (\<forall>h h' k v. dict_setitem (field_cons c1) k v h = Inr h' \<longrightarrow>
            deref h' (HdlConstraint.indexes c2) = deref h (HdlConstraint.indexes c2)
          \<and> deref h' (field_cons c2) = deref h (field_cons c2))
     \<and> (\<forall>h h' x. list_append (HdlConstraint.indexes c2) x h = Inr h' \<longrightarrow>
            deref h' (HdlConstraint.indexes c1) = deref h (HdlConstraint.indexes c1)
          \<and> deref h' (field_cons c1) = deref h (field_cons c1))
     \<and> (\<forall>h h' k v. dict_setitem (field_cons c2) k v h = Inr h' \<longrightarrow>
            deref h' (HdlConstraint.indexes c1) = deref h (HdlConstraint.indexes c1)
          \<and> deref h' (field_cons c1) = deref h (field_cons c1))"
proof -
  from c1 have n1: "c1 = \<lparr>HdlConstraint.range = None, HdlConstraint.indexes = length h0,
      element = None, field_cons = Suc (length h0)\<rparr>"
    and s1: "h1 = h0 @ [PyList [], PyDict []]"
    by (simp_all add: HdlConstraint_init_result)
  from c2 have n2: "c2 = \<lparr>HdlConstraint.range = None, HdlConstraint.indexes = length hm,
      element = None, field_cons = Suc (length hm)\<rparr>"
    and s2: "h2 = hm @ [PyList [], PyDict []]"
    by (simp_all add: HdlConstraint_init_result)
  from grow s1 have lt: "Suc (length h0) < length hm" by simp
  have i1: "HdlConstraint.indexes c1 = length h0" and f1: "field_cons c1 = Suc (length h0)"
    and r1: "HdlConstraint.range c1 = None" and e1: "element c1 = None"
    by (simp_all add: n1)
  have i2: "HdlConstraint.indexes c2 = length hm" and f2: "field_cons c2 = Suc (length hm)"
    and r2: "HdlConstraint.range c2 = None" and e2: "element c2 = None"
    by (simp_all add: n2)
  have l1: "deref h1 (HdlConstraint.indexes c1) = Some (PyList [])"
    and d1: "deref h1 (field_cons c1) = Some (PyDict [])"
    by (simp_all only: i1 f1 s1 deref_append_new)
  have l2: "deref h2 (HdlConstraint.indexes c2) = Some (PyList [])"
    and d2: "deref h2 (field_cons c2) = Some (PyDict [])"
    by (simp_all only: i2 f2 s2 deref_append_new)
  have d: "distinct [HdlConstraint.indexes c1, field_cons c1, HdlConstraint.indexes c2, field_cons c2]"
    using lt by (simp add: i1 f1 i2 f2)
  have ne12: "HdlConstraint.indexes c2 \<noteq> HdlConstraint.indexes c1"
      "field_cons c2 \<noteq> HdlConstraint.indexes c1"
      "HdlConstraint.indexes c2 \<noteq> field_cons c1"
      "field_cons c2 \<noteq> field_cons c1"
    using lt by (simp_all add: i1 f1 i2 f2)
  have ne21: "HdlConstraint.indexes c1 \<noteq> HdlConstraint.indexes c2"
      "field_cons c1 \<noteq> HdlConstraint.indexes c2"
      "HdlConstraint.indexes c1 \<noteq> field_cons c2"
      "field_cons c1 \<noteq> field_cons c2"
    using lt by (simp_all add: i1 f1 i2 f2)
  note a1 = list_append_others [OF ne12(1) ne12(2)]
  note a2 = dict_setitem_others [OF ne12(3) ne12(4)]
  note a3 = list_append_others [OF ne21(1) ne21(2)]
  note a4 = dict_setitem_others [OF ne21(3) ne21(4)]
  show ?thesis
    by (intro conjI r1 e1 l1 d1 r2 e2 l2 d2 d a1 a2 a3 a4)
qed

text \<open>
  C9, at two nodes constructed one after the other in the empty store: appending 5 to
  the index list of the first leaves the list and the map of the second untouched.
\<close>

theorem HdlConstraint_init_fresh_containers_witness:
  "HdlConstraint_init ([] :: (string, nat) store)
     = Inr (\<lparr>HdlConstraint.range = None, HdlConstraint.indexes = 0, element = None, field_cons = 1\<rparr>,
            [PyList [], PyDict []])
   \<and> length [PyList [], PyDict [] :: (string, nat) container]
       \<le> length [PyList [], PyDict [] :: (string, nat) container]
   \<and> HdlConstraint_init [PyList [], PyDict [] :: (string, nat) container]
     = Inr (\<lparr>HdlConstraint.range = None, HdlConstraint.indexes = 2, element = None, field_cons = 3\<rparr>,
            [PyList [], PyDict [], PyList [], PyDict []])
   \<and> list_append 0 5 [PyList [], PyDict [], PyList [], PyDict [] :: (string, nat) container]
     = Inr [PyList [5], PyDict [], PyList [], PyDict []]
   \<and> deref [PyList [5], PyDict [], PyList [], PyDict [] :: (string, nat) container] 2
     = deref [PyList [], PyDict [], PyList [], PyDict []] 2
   \<and> deref [PyList [5], PyDict [], PyList [], PyDict [] :: (string, nat) container] 3
     = deref [PyList [], PyDict [], PyList [], PyDict []] 3"
proof -
  let ?c1 = "\<lparr>HdlConstraint.range = None :: nat option, HdlConstraint.indexes = 0,
      element = None, field_cons = 1\<rparr>"
  let ?c2 = "\<lparr>HdlConstraint.range = None :: nat option, HdlConstraint.indexes = 2,
      element = None, field_cons = 3\<rparr>"
  let ?h1 = "[PyList [], PyDict [] :: (string, nat) container]"
  let ?h2 = "[PyList [], PyDict [], PyList [], PyDict [] :: (string, nat) container]"
  let ?h3 = "[PyList [5], PyDict [], PyList [], PyDict [] :: (string, nat) container]"
  have p1: "HdlConstraint_init ([] :: (string, nat) store) = Inr (?c1, ?h1)"
    by (simp add: HdlConstraint_init_def alloc_def)
  have p2: "length ?h1 \<le> length ?h1"
    by simp
  have p3: "HdlConstraint_init ?h1 = Inr (?c2, ?h2)"
    by (simp add: HdlConstraint_init_def alloc_def)
  have app: "list_append (HdlConstraint.indexes ?c1) 5 ?h2 = Inr ?h3"
    by (simp add: list_append_def deref_def)
  note t = HdlConstraint_init_fresh_containers [OF p1 p2 p3]
  note a1 = t [THEN conjunct2, THEN conjunct2, THEN conjunct2, THEN conjunct2, THEN conjunct2,
      THEN conjunct2, THEN conjunct2, THEN conjunct2, THEN conjunct2, THEN conjunct1]
  have un: "deref ?h3 (HdlConstraint.indexes ?c2) = deref ?h2 (HdlConstraint.indexes ?c2)
      \<and> deref ?h3 (field_cons ?c2) = deref ?h2 (field_cons ?c2)"
    by (rule a1 [rule_format, OF app])
  show ?thesis
    using p1 p3 app un by simp
qed

section \<open>Enumeration members\<close>

lemma values_foldl_append_member:
  "values' (foldl append_member e ms) = values' e @ ms"
  by (induction ms arbitrary: e) (simp_all add: append_member_def)

text \<open>
  C8. An enum declaration built by appending the members \<open>ms\<close> in order to a fresh
  node stores exactly \<open>ms\<close>, in that order; every stored member is a bare identifier
  or a pair of an identifier and an integer; and a declaration that mixes the two
  kinds (Scenario C) is stored as written.
\<close>

theorem HdlEnumDef_values_in_append_order:
  "(\<exists>e. HdlEnumDef_init n = Inr e
        \<and> values' e = []
        \<and> values' (foldl append_member e ms) = ms
        \<and> length (values' (foldl append_member e ms)) = length ms
        \<and> list_all (\<lambda>m. (\<exists>s. m = Bare s) \<or> (\<exists>s v. m = Valued s v)) (values' (foldl append_member e ms))
        \<and> values' (foldl append_member e [Bare ''RED'', Bare ''GREEN'', Valued ''BLUE'' 5])
          = [Bare ''RED'', Bare ''GREEN'', Valued ''BLUE'' 5])"
proof -
  have "list_all (\<lambda>m. (\<exists>s. m = Bare s) \<or> (\<exists>s v. m = Valued s v)) ms"
    unfolding list_all_iff
  proof
    fix m assume "m \<in> set ms"
    show "(\<exists>s. m = Bare s) \<or> (\<exists>s v. m = Valued s v)" by (cases m) simp_all
  qed
  then show ?thesis
    by (simp add: HdlEnumDef_init_def values_foldl_append_member append_member_def)
qed

end
